theory Spec2Isabelle
  imports Complex_Main
begin

section \<open>Data model of \<open>pilbox/app.py\<close>\<close>

text \<open>
  Python values that occur as option values: \<open>None\<close>, a string (a request argument or a
  string-typed setting) and an integer (an \<open>int\<close>-typed setting such as \<open>expand\<close>).
\<close>

datatype pyval = PNone | PStr string | PInt int

text \<open>
  The exceptions of \<open>pilbox.errors\<close> that \<open>app.py\<close> raises, each with its log message, and
  \<open>ExternalError\<close> for any exception raised outside \<open>app.py\<close> (the image library, the
  Python runtime, the web framework).
\<close>

datatype error =
    OperationError string
  | UrlError string
  | SignatureError string
  | ClientError string
  | HostError string
  | DimensionsError string
  | FetchError
  | ExternalError string

text \<open>
  The settings dictionary that \<open>PilboxApplication.__init__\<close> builds from the typed options
  (lines 105-134). Only the keys read by \<open>ImageHandler\<close> are kept. The key \<open>filter\<close> is
  named \<open>filter_setting\<close> here. \<open>allowed_operations\<close> is the set built at line 110.
\<close>

record settings =
  client_name :: "string option"
  client_key :: "string option"
  allowed_hosts :: "string list"
  allowed_operations :: "string set"
  max_operations :: int
  max_resize_height :: int
  max_resize_width :: int
  background :: "string option"
  expand :: "int option"
  filter_setting :: "string option"
  format :: "string option"
  mode :: "string option"
  operation :: "string option"
  optimize :: "int option"
  position :: "string option"
  progressive :: "int option"
  quality :: "string option"
  implicit_base_url :: "string option"
  content_type_from_image :: "bool option"
  preserve_exif :: "int option"

text \<open>
  A request: \<open>arguments r name\<close> is what \<open>get_argument(name)\<close> (line 174, default
  \<open>None\<close>, \<open>strip=True\<close>) returns: \<open>None\<close> when the query has no such argument, the last
  value, stripped, otherwise. An argument given as \<open>name=\<close> is \<open>Some ''''\<close>.
\<close>

record request =
  arguments :: "string \<Rightarrow> string option"
  uri :: string

type_synonym options = "(string \<times> pyval) list"

definition get_argument :: "request \<Rightarrow> string \<Rightarrow> string option" where
  "get_argument r name = arguments r name"

definition arg_value :: "string option \<Rightarrow> pyval" where
  "arg_value a = (case a of None \<Rightarrow> PNone | Some v \<Rightarrow> PStr v)"

definition int_value :: "int option \<Rightarrow> pyval" where
  "int_value a = (case a of None \<Rightarrow> PNone | Some v \<Rightarrow> PInt v)"

text \<open>
  \<open>self.settings.get(k, None)\<close> for the keys that \<open>_get_options\<close> is called with. The keys
  \<open>retain\<close> and \<open>watermark_*\<close> are not in the settings dictionary, so the lookup gives
  \<open>None\<close> for them.
\<close>

definition settings_get :: "settings \<Rightarrow> string \<Rightarrow> pyval" where
  "settings_get s k =
     (if k = ''background'' then arg_value (background s)
      else if k = ''expand'' then int_value (expand s)
      else if k = ''filter'' then arg_value (filter_setting s)
      else if k = ''format'' then arg_value (format s)
      else if k = ''mode'' then arg_value (mode s)
      else if k = ''optimize'' then int_value (optimize s)
      else if k = ''position'' then arg_value (position s)
      else if k = ''progressive'' then int_value (progressive s)
      else if k = ''quality'' then arg_value (quality s)
      else if k = ''preserve_exif'' then int_value (preserve_exif s)
      else PNone)"

section \<open>Option resolution\<close>

text \<open>
  \<open>_get_options\<close> (lines 342-346): every key of the dictionary is kept; a value that is
  \<open>None\<close> is replaced by the setting of the same name.
\<close>

definition get_options :: "settings \<Rightarrow> options \<Rightarrow> options" where
  "get_options s opts = map (\<lambda>(k, v). (k, if v = PNone then settings_get s k else v)) opts"

definition get_resize_options :: "settings \<Rightarrow> request \<Rightarrow> options" where
  "get_resize_options s r = get_options s
     [(''mode'', arg_value (get_argument r ''mode'')),
      (''filter'', arg_value (get_argument r ''filter'')),
      (''position'', arg_value (get_argument r ''pos'')),
      (''background'', arg_value (get_argument r ''bg'')),
      (''retain'', arg_value (get_argument r ''retain''))]"

definition get_rotate_options :: "settings \<Rightarrow> request \<Rightarrow> options" where
  "get_rotate_options s r = get_options s
     [(''expand'', arg_value (get_argument r ''expand''))]"

definition get_watermark_options :: "settings \<Rightarrow> request \<Rightarrow> options" where
  "get_watermark_options s r = get_options s
     [(''watermark_txt'', arg_value (get_argument r ''watermark_txt'')),
      (''watermark_img'', arg_value (get_argument r ''watermark_img'')),
      (''watermark_pos'', arg_value (get_argument r ''watermark_pos'')),
      (''watermark_txt_size'', arg_value (get_argument r ''watermark_txt_size'')),
      (''watermark_txt_color'', arg_value (get_argument r ''watermark_txt_color'')),
      (''watermark_img_ratio'', arg_value (get_argument r ''watermark_img_ratio''))]"

definition get_save_options :: "settings \<Rightarrow> request \<Rightarrow> options" where
  "get_save_options s r = get_options s
     [(''format'', arg_value (get_argument r ''fmt'')),
      (''optimize'', arg_value (get_argument r ''opt'')),
      (''quality'', arg_value (get_argument r ''q'')),
      (''progressive'', arg_value (get_argument r ''prog'')),
      (''background'', arg_value (get_argument r ''bg'')),
      (''preserve_exif'', arg_value (get_argument r ''exif'')),
      (''watermark_pos'', arg_value (get_argument r ''watermark_pos'')),
      (''watermark_txt_size'', arg_value (get_argument r ''watermark_txt_size'')),
      (''watermark_txt_color'', arg_value (get_argument r ''watermark_txt_color'')),
      (''watermark_img_ratio'', arg_value (get_argument r ''watermark_img_ratio''))]"

text \<open>
  Test inputs: the settings that the option defaults of lines 52-97 give, and a request
  built from its query arguments (each name given once).
\<close>

definition default_settings :: settings where
  "default_settings =
     \<lparr>client_name = None, client_key = None, allowed_hosts = [],
      allowed_operations = {''region'', ''resize'', ''rotate'', ''noop'', ''watermark''},
      max_operations = 10, max_resize_height = 15000, max_resize_width = 15000,
      background = None, expand = None, filter_setting = None, format = None,
      mode = None, operation = None, optimize = None, position = None,
      progressive = None, quality = None, implicit_base_url = None,
      content_type_from_image = None, preserve_exif = None\<rparr>"

definition request_of :: "(string \<times> string) list \<Rightarrow> request" where
  "request_of qs = \<lparr>arguments = map_of qs, uri = ''/''\<rparr>"

section \<open>Strings and truth values of Python\<close>

text \<open>\<open>str.split(sep)\<close> with a one-character separator: the empty string gives \<open>['']\<close>.\<close>

fun split_on :: "char \<Rightarrow> string \<Rightarrow> string list" where
  "split_on c [] = [[]]"
| "split_on c (x # xs) =
     (if x = c then [] # split_on c xs
      else (case split_on c xs of [] \<Rightarrow> [[x]] | y # ys \<Rightarrow> (x # y) # ys))"

definition startswith :: "string \<Rightarrow> string \<Rightarrow> bool" where
  "startswith v p = (take (length p) v = p)"

text \<open>Truth value of an optional string: \<open>None\<close> and \<open>''\<close> are false.\<close>

definition truthy :: "string option \<Rightarrow> bool" where
  "truthy a = (case a of None \<Rightarrow> False | Some v \<Rightarrow> v \<noteq> [])"

text \<open>\<open>str.lower()\<close> on ASCII letters; every other character is kept.\<close>

definition lower_char :: "char \<Rightarrow> char" where
  "lower_char c =
     (let n = (of_char c :: nat) in if 65 \<le> n \<and> n \<le> 90 then char_of (n + 32) else c)"

definition lower :: "string \<Rightarrow> string" where
  "lower v = map lower_char v"

section \<open>Collaborators\<close>

text \<open>
  The upstream response: its body and its headers. Header names are compared without
  case by the framework, so a name stands for all its spellings.
\<close>

record response =
  buffer :: string
  headers :: "string \<Rightarrow> string option"

datatype fetch_result = Fetched response | GaiOrHTTPError | OtherException string

text \<open>
  Everything \<open>app.py\<close> calls and does not define is a parameter: \<open>pilbox.image.Image\<close>
  (the validators return the exception they raise, if any; the transforms mutate the
  image, so they return the new image), \<open>pilbox.signature.verify_signature\<close>,
  \<open>urlparse\<close>, \<open>urljoin\<close>, \<open>int\<close> on a string (\<open>None\<close> is \<open>ValueError\<close>) and the HTTP
  client's \<open>fetch\<close>.
\<close>

record 'img env =
  verify_signature :: "string \<Rightarrow> string \<Rightarrow> bool"
  urlparse_query :: "string \<Rightarrow> string"
  urlparse_hostname :: "string option \<Rightarrow> string option"
  urljoin :: "string \<Rightarrow> string \<Rightarrow> string"
  int_of :: "string \<Rightarrow> int option"
  validate_dimensions :: "string option \<Rightarrow> string option \<Rightarrow> error option"
  validate_degree :: "string option \<Rightarrow> error option"
  validate_rectangle :: "string option \<Rightarrow> error option"
  validate_options :: "options \<Rightarrow> error option"
  client_fetch :: "string \<Rightarrow> fetch_result"
  image_open :: "string \<Rightarrow> error + 'img"
  image_region :: "string list \<Rightarrow> 'img \<Rightarrow> error + 'img"
  image_resize :: "string option \<Rightarrow> string option \<Rightarrow> options \<Rightarrow> 'img \<Rightarrow> error + 'img"
  image_rotate :: "string option \<Rightarrow> options \<Rightarrow> 'img \<Rightarrow> error + 'img"
  image_watermark :: "string option \<Rightarrow> options \<Rightarrow> 'img \<Rightarrow> error + 'img"
  image_save :: "options \<Rightarrow> 'img \<Rightarrow> error + (string \<times> 'img)"
  image_format :: "'img \<Rightarrow> string option"

section \<open>Request validation\<close>

text \<open>\<open>_get_operations\<close> (lines 304-306).\<close>

definition get_operations :: "settings \<Rightarrow> request \<Rightarrow> string list" where
  "get_operations s r =
     split_on CHR '','' 
       (case get_argument r ''op'' of
          Some v \<Rightarrow> v
        | None \<Rightarrow> (if truthy (operation s) then (case operation s of Some v \<Rightarrow> v | None \<Rightarrow> ''resize'')
                   else ''resize''))"

text \<open>A check returns the exception it raises, \<open>None\<close> when it returns normally.\<close>

definition validate_operation :: "settings \<Rightarrow> request \<Rightarrow> error option" where
  "validate_operation s r =
     (let operations = set (get_operations s r) in
      if \<not> operations \<subseteq> allowed_operations s then Some (OperationError ''Unsupported operation'')
      else if int (card operations) > max_operations s then Some (OperationError ''Too many operations'')
      else None)"

definition validate_url :: "settings \<Rightarrow> request \<Rightarrow> error option" where
  "validate_url s r =
     (let url = get_argument r ''url'' in
      case url of
        None \<Rightarrow> Some (UrlError ''Missing url'')
      | Some u \<Rightarrow>
          if u = [] then Some (UrlError ''Missing url'')
          else if startswith u ''http://'' \<or> startswith u ''https://'' then None
          else if truthy (implicit_base_url s) \<and> startswith u ''/'' then None
          else Some (UrlError ''Unsupported protocol''))"

definition validate_client :: "settings \<Rightarrow> request \<Rightarrow> error option" where
  "validate_client s r =
     (let client = client_name s in
      if truthy client \<and> get_argument r ''client'' \<noteq> client then Some (ClientError ''Invalid client'')
      else None)"

definition validate_signature :: "'img env \<Rightarrow> settings \<Rightarrow> request \<Rightarrow> error option" where
  "validate_signature env s r =
     (case client_key s of
        None \<Rightarrow> None
      | Some key \<Rightarrow>
          if key \<noteq> [] \<and> \<not> verify_signature env key (urlparse_query env (uri r))
          then Some (SignatureError ''Invalid signature'')
          else None)"

definition validate_host :: "'img env \<Rightarrow> settings \<Rightarrow> request \<Rightarrow> error option" where
  "validate_host env s r =
     (let hosts = allowed_hosts s in
      if hosts \<noteq> [] \<and>
         (case urlparse_hostname env (get_argument r ''url'') of
            None \<Rightarrow> True
          | Some h \<Rightarrow> h \<notin> set hosts)
      then Some (HostError ''Invalid host'')
      else None)"

text \<open>The \<open>resize\<close> block of \<open>validate_request\<close> (lines 187-192).\<close>

definition validate_resize :: "'img env \<Rightarrow> settings \<Rightarrow> request \<Rightarrow> error option" where
  "validate_resize env s r =
     (let w = get_argument r ''w''; h = get_argument r ''h'' in
      case validate_dimensions env w h of
        Some e \<Rightarrow> Some e
      | None \<Rightarrow>
          (case (if truthy w then map_option (\<lambda>n. n > max_resize_width s) (int_of env (case w of Some v \<Rightarrow> v | None \<Rightarrow> []))
                 else Some False) of
             None \<Rightarrow> Some (ExternalError ''ValueError'')
           | Some True \<Rightarrow> Some (DimensionsError ''Exceeds maximum allowed width'')
           | Some False \<Rightarrow>
               (case (if truthy h then map_option (\<lambda>n. n > max_resize_height s) (int_of env (case h of Some v \<Rightarrow> v | None \<Rightarrow> []))
                      else Some False) of
                  None \<Rightarrow> Some (ExternalError ''ValueError'')
                | Some True \<Rightarrow> Some (DimensionsError ''Exceeds maximum allowed height'')
                | Some False \<Rightarrow> None)))"

text \<open>The \<open>watermark\<close> block of \<open>validate_request\<close> (lines 200-207).\<close>

definition validate_watermark :: "request \<Rightarrow> error option" where
  "validate_watermark r =
     (let url = get_argument r ''watermark_img''; text = get_argument r ''watermark_txt'' in
      if truthy url \<and> \<not> (case url of Some u \<Rightarrow> startswith u ''http://'' | None \<Rightarrow> False)
                   \<and> \<not> (case url of Some u \<Rightarrow> startswith u ''https://'' | None \<Rightarrow> False)
      then Some (DimensionsError ''Unsupported protocol'')
      else if text \<noteq> None \<and> \<not> truthy text
      then Some (DimensionsError ''Watermark text cannot be empty'')
      else if text = None \<and> url = None
      then Some (DimensionsError ''Watermark requires either watermark_img or watermark_txt'')
      else None)"

text \<open>\<open>dict.update\<close>: a key already present keeps its place and takes the new value.\<close>

fun dict_set :: "options \<Rightarrow> string \<Rightarrow> pyval \<Rightarrow> options" where
  "dict_set [] k v = [(k, v)]"
| "dict_set ((k', v') # d) k v = (if k' = k then (k, v) # d else (k', v') # dict_set d k v)"

definition dict_update :: "options \<Rightarrow> options \<Rightarrow> options" where
  "dict_update d e = foldl (\<lambda>acc (k, v). dict_set acc k v) d e"

text \<open>The dictionary \<open>opts\<close> of \<open>validate_request\<close> as it reaches line 209.\<close>

definition merged_options :: "settings \<Rightarrow> request \<Rightarrow> options" where
  "merged_options s r =
     (let opts = get_save_options s r;
          ops = get_operations s r;
          opts = (if ''resize'' \<in> set ops then dict_update opts (get_resize_options s r) else opts);
          opts = (if ''rotate'' \<in> set ops then dict_update opts (get_rotate_options s r) else opts)
      in opts)"

text \<open>Sequencing: the second check runs only when the first raised nothing.\<close>

definition and_then :: "error option \<Rightarrow> error option \<Rightarrow> error option" where
  "and_then a b = (case a of Some e \<Rightarrow> Some e | None \<Rightarrow> b)"

text \<open>Lines 184-209 of \<open>validate_request\<close>: the checks of the operations' arguments.\<close>

definition validate_arguments :: "'img env \<Rightarrow> settings \<Rightarrow> request \<Rightarrow> error option" where
  "validate_arguments env s r =
     (let ops = get_operations s r in
      and_then (if ''resize'' \<in> set ops then validate_resize env s r else None)
     (and_then (if ''rotate'' \<in> set ops then validate_degree env (get_argument r ''deg'') else None)
     (and_then (if ''region'' \<in> set ops then validate_rectangle env (get_argument r ''rect'') else None)
     (and_then (if ''watermark'' \<in> set ops then validate_watermark r else None)
               (validate_options env (merged_options s r))))))"

definition validate_request :: "'img env \<Rightarrow> settings \<Rightarrow> request \<Rightarrow> error option" where
  "validate_request env s r =
     and_then (validate_operation s r)
    (and_then (validate_url s r)
    (and_then (validate_signature env s r)
    (and_then (validate_client s r)
    (and_then (validate_host env s r)
              (validate_arguments env s r)))))"

section \<open>The operation pipeline\<close>

text \<open>
  The calls made on collaborators are logged: \<open>Fetch url\<close> for \<open>client.fetch\<close>, \<open>Decode\<close>
  for \<open>Image(resp.buffer)\<close>, \<open>Transform op\<close> for the image method of operation \<open>op\<close>, and
  \<open>Encode\<close> for \<open>image.save\<close>. A function that calls collaborators returns its result
  (\<open>Inl\<close> the exception raised) and the calls it made, in order.
\<close>

datatype event = Fetch string | Decode | Transform string | Encode

text \<open>
  The body of the loop at lines 260-268; \<open>None\<close> when no branch matches the operation.
  \<open>_image_region\<close> calls \<open>split\<close> on the \<open>rect\<close> argument, which fails on \<open>None\<close>.
\<close>

definition apply_operation ::
  "'img env \<Rightarrow> settings \<Rightarrow> request \<Rightarrow> string \<Rightarrow> 'img \<Rightarrow> (error + 'img) option" where
  "apply_operation env s r opn img =
     (if opn = ''resize''
      then Some (image_resize env (get_argument r ''w'') (get_argument r ''h'')
                   (get_resize_options s r) img)
      else if opn = ''rotate''
      then Some (image_rotate env (get_argument r ''deg'') (get_rotate_options s r) img)
      else if opn = ''region''
      then Some (case get_argument r ''rect'' of
                   None \<Rightarrow> Inl (ExternalError ''AttributeError'')
                 | Some rect \<Rightarrow> image_region env (split_on CHR '','' rect) img)
      else if opn = ''watermark''
      then Some (image_watermark env (get_argument r ''watermark_pos'')
                   (get_watermark_options s r) img)
      else None)"

fun apply_operations ::
  "'img env \<Rightarrow> settings \<Rightarrow> request \<Rightarrow> string list \<Rightarrow> 'img \<Rightarrow> (error + 'img) \<times> event list" where
  "apply_operations env s r [] img = (Inr img, [])"
| "apply_operations env s r (opn # ops) img =
     (case apply_operation env s r opn img of
        None \<Rightarrow> apply_operations env s r ops img
      | Some (Inl e) \<Rightarrow> (Inl e, [Transform opn])
      | Some (Inr img') \<Rightarrow>
          (case apply_operations env s r ops img' of
             (res, tr) \<Rightarrow> (res, Transform opn # tr)))"

text \<open>\<open>_process_response\<close> (lines 254-270): the output file and its declared format.\<close>

definition process_response ::
  "'img env \<Rightarrow> settings \<Rightarrow> request \<Rightarrow> response \<Rightarrow> (error + string \<times> string option) \<times> event list" where
  "process_response env s r resp =
     (let ops = get_operations s r in
      if ''noop'' \<in> set ops then (Inr (buffer resp, None), [])
      else
        (case image_open env (buffer resp) of
           Inl e \<Rightarrow> (Inl e, [Decode])
         | Inr img \<Rightarrow>
             (case apply_operations env s r ops img of
                (Inl e, tr) \<Rightarrow> (Inl e, Decode # tr)
              | (Inr img', tr) \<Rightarrow>
                  (case image_save env (get_save_options s r) img' of
                     Inl e \<Rightarrow> (Inl e, Decode # tr @ [Encode])
                   | Inr (outfile, img'') \<Rightarrow>
                       (Inr (outfile, image_format env img''), Decode # tr @ [Encode])))))"

section \<open>Response headers and body\<close>

definition FORWARD_HEADERS :: "string list" where
  "FORWARD_HEADERS = [''Cache-Control'', ''Expires'', ''Last-Modified'']"

definition FORMAT_TO_MIME :: "string \<Rightarrow> string option" where
  "FORMAT_TO_MIME =
     map_of [(''gif'', ''image/gif''), (''jpeg'', ''image/jpeg''), (''jpg'', ''image/jpeg''),
             (''png'', ''image/png''), (''webp'', ''image/webp''), (''tiff'', ''image/tiff'')]"

text \<open>The loop at lines 300-302, on the headers the handler has set so far.\<close>

fun forward_headers ::
  "(string \<Rightarrow> string option) \<Rightarrow> string list \<Rightarrow> (string \<Rightarrow> string option) \<Rightarrow> (string \<Rightarrow> string option)" where
  "forward_headers hs [] out = out"
| "forward_headers hs (k # ks) out =
     forward_headers hs ks (if truthy (hs k) then out(k := hs k) else out)"

text \<open>
  \<open>_set_headers\<close> (lines 291-302). \<open>out\<close> holds the headers of the handler before the
  call. A format that the table lacks gives \<open>set_header\<close> the value \<open>None\<close>, which it
  refuses with \<open>TypeError\<close>.
\<close>

definition set_headers ::
  "settings \<Rightarrow> request \<Rightarrow> (string \<Rightarrow> string option) \<Rightarrow> string option \<Rightarrow>
   (string \<Rightarrow> string option) \<Rightarrow> error + (string \<Rightarrow> string option)" where
  "set_headers s r hs file_format out =
     (case
        (if truthy file_format \<and>
            (truthy (get_argument r ''fmt'') \<or> truthy (format s) \<or>
             content_type_from_image s = Some True)
         then (case FORMAT_TO_MIME (lower (case file_format of Some f \<Rightarrow> f | None \<Rightarrow> [])) of
                 None \<Rightarrow> Inl (ExternalError ''TypeError'')
               | Some mime \<Rightarrow> Inr (out(''Content-Type'' \<mapsto> mime)))
         else if hs ''Content-Type'' \<noteq> None then Inr (out(''Content-Type'' := hs ''Content-Type''))
         else Inr out) of
        Inl e \<Rightarrow> Inl e
      | Inr out' \<Rightarrow> Inr (forward_headers hs FORWARD_HEADERS out'))"

text \<open>
  The blocks that line 239 reads from the output file: \<open>read(n)\<close> until it gives the
  empty string.
\<close>

function read_blocks :: "nat \<Rightarrow> string \<Rightarrow> string list" where
  "read_blocks n xs = (if n = 0 \<or> xs = [] then [] else take n xs # read_blocks n (drop n xs))"
  by pat_completeness auto
termination
  by (relation "measure (\<lambda>(n, xs). length xs)") auto

declare read_blocks.simps [simp del]

text \<open>\<open>render_image\<close> (lines 236-241): the headers of the handler and the body written.\<close>

definition render_image ::
  "'img env \<Rightarrow> settings \<Rightarrow> request \<Rightarrow> response \<Rightarrow> (string \<Rightarrow> string option) \<Rightarrow>
   (error + (string \<Rightarrow> string option) \<times> string) \<times> event list" where
  "render_image env s r resp out =
     (case process_response env s r resp of
        (Inl e, tr) \<Rightarrow> (Inl e, tr)
      | (Inr (outfile, outfile_format), tr) \<Rightarrow>
          (case set_headers s r (headers resp) outfile_format out of
             Inl e \<Rightarrow> (Inl e, tr)
           | Inr out' \<Rightarrow> (Inr (out', concat (read_blocks 65536 outfile)), tr)))"

section \<open>Fetching and the request handler\<close>

text \<open>
  \<open>fetch_image\<close> (lines 212-234). The \<open>url\<close> argument is present once the request is
  validated; without it the client has nothing to fetch and raises.
\<close>

definition fetch_image :: "'img env \<Rightarrow> settings \<Rightarrow> request \<Rightarrow> (error + response) \<times> event list" where
  "fetch_image env s r =
     (case get_argument r ''url'' of
        None \<Rightarrow> (Inl (ExternalError ''TypeError''), [])
      | Some u \<Rightarrow>
          (let url = (if truthy (implicit_base_url s) \<and> urlparse_hostname env (Some u) = None
                      then urljoin env (case implicit_base_url s of Some b \<Rightarrow> b | None \<Rightarrow> []) u
                      else u)
           in case client_fetch env url of
                Fetched resp \<Rightarrow> (Inr resp, [Fetch url])
              | GaiOrHTTPError \<Rightarrow> (Inl FetchError, [Fetch url])
              | OtherException m \<Rightarrow> (Inl (ExternalError m), [Fetch url])))"

text \<open>\<open>ImageHandler.get\<close> (lines 169-172).\<close>

definition get ::
  "'img env \<Rightarrow> settings \<Rightarrow> request \<Rightarrow> (string \<Rightarrow> string option) \<Rightarrow>
   (error + (string \<Rightarrow> string option) \<times> string) \<times> event list" where
  "get env s r out =
     (case validate_request env s r of
        Some e \<Rightarrow> (Inl e, [])
      | None \<Rightarrow>
          (case fetch_image env s r of
             (Inl e, tr) \<Rightarrow> (Inl e, tr)
           | (Inr resp, tr) \<Rightarrow>
               (case render_image env s r resp out of (res, tr') \<Rightarrow> (res, tr @ tr'))))"

section \<open>Shutdown\<close>






section \<open>Auxiliary notions for the statements\<close>

text \<open>The operations for which the loop of \<open>_process_response\<close> has a branch.\<close>

definition has_transform :: "string \<Rightarrow> bool" where
  "has_transform opn = (opn \<in> set [''resize'', ''rotate'', ''region'', ''watermark''])"

text \<open>The calls of a run that decodes, applies every listed operation and encodes.\<close>

definition full_trace :: "string list \<Rightarrow> event list" where
  "full_trace ops = Decode # map Transform (filter has_transform ops) @ [Encode]"

text \<open>The \<open>Content-Type\<close> of the handler after \<open>_set_headers\<close>, when it returns.\<close>

definition content_type_of :: "error + (string \<Rightarrow> string option) \<Rightarrow> string option" where
  "content_type_of res = (case res of Inl e \<Rightarrow> None | Inr out \<Rightarrow> out ''Content-Type'')"

text \<open>
  The value of a resolved option: the request argument when it is present, the given
  default otherwise.
\<close>

definition supplied_or :: "string option \<Rightarrow> pyval \<Rightarrow> pyval" where
  "supplied_or a d = (case a of Some v \<Rightarrow> PStr v | None \<Rightarrow> d)"

text \<open>
  One step on the image handle, for collaborators that succeed: \<open>rs\<close>, \<open>rt\<close>, \<open>rg\<close> and
  \<open>wm\<close> are what resize, rotate, region and watermark make of an image; any other
  operation leaves the image as it is.
\<close>

definition transform_image ::
  "('img \<Rightarrow> 'img) \<Rightarrow> ('img \<Rightarrow> 'img) \<Rightarrow> ('img \<Rightarrow> 'img) \<Rightarrow> ('img \<Rightarrow> 'img) \<Rightarrow>
   'img \<Rightarrow> string \<Rightarrow> 'img" where
  "transform_image rs rt rg wm img opn =
     (if opn = ''resize'' then rs img
      else if opn = ''rotate'' then rt img
      else if opn = ''region'' then rg img
      else if opn = ''watermark'' then wm img
      else img)"

text \<open>The first exception raised by a sequence of checks, if any.\<close>

fun first_error :: "error option list \<Rightarrow> error option" where
  "first_error [] = None"
| "first_error (c # cs) = (case c of Some e \<Rightarrow> Some e | None \<Rightarrow> first_error cs)"

text \<open>The checks of \<open>validate_request\<close>, in the order of lines 178-209.\<close>

definition checks :: "'img env \<Rightarrow> settings \<Rightarrow> request \<Rightarrow> error option list" where
  "checks env s r =
     [validate_operation s r, validate_url s r, validate_signature env s r,
      validate_client s r, validate_host env s r, validate_arguments env s r]"

text \<open>
  A collaborator environment for concrete runs: an image is the list of the calls made
  on it, every validator accepts, the signature verifies, the host of a URL is
  \<open>example.com\<close>, and the fetch returns a JPEG body with its content type.
\<close>

fun decimal_digits :: "string \<Rightarrow> nat \<Rightarrow> nat option" where
  "decimal_digits [] acc = Some acc"
| "decimal_digits (c # cs) acc =
     (let n = (of_char c :: nat) in
      if 48 \<le> n \<and> n \<le> 57 then decimal_digits cs (10 * acc + (n - 48)) else None)"

definition decimal :: "string \<Rightarrow> int option" where
  "decimal v = (if v = [] then None else map_option int (decimal_digits v 0))"

definition test_response :: response where
  "test_response = \<lparr>buffer = ''JPEGDATA'', headers = map_of [(''Content-Type'', ''image/jpeg'')]\<rparr>"

definition test_env :: "(string list) env" where
  "test_env =
     \<lparr>verify_signature = (\<lambda>key query. True),
      urlparse_query = (\<lambda>u. u),
      urlparse_hostname = (\<lambda>u. Some ''example.com''),
      urljoin = (\<lambda>base u. base @ u),
      int_of = decimal,
      validate_dimensions = (\<lambda>w h. None),
      validate_degree = (\<lambda>deg. None),
      validate_rectangle = (\<lambda>rect. None),
      validate_options = (\<lambda>opts. None),
      client_fetch = (\<lambda>url. Fetched test_response),
      image_open = (\<lambda>buf. Inr [''open'']),
      image_region = (\<lambda>rect img. Inr (img @ [''region''])),
      image_resize = (\<lambda>w h opts img. Inr (img @ [''resize''])),
      image_rotate = (\<lambda>deg opts img. Inr (img @ [''rotate''])),
      image_watermark = (\<lambda>pos opts img. Inr (img @ [''watermark''])),
      image_save = (\<lambda>opts img. Inr (concat img, img)),
      image_format = (\<lambda>img. Some ''JPEG'')\<rparr>"

section \<open>Helper lemmas\<close>

lemma concat_read_blocks: "concat (read_blocks n xs) = (if n = 0 then [] else xs)"
proof (induction n xs rule: read_blocks.induct)
  case (1 n xs)
  show ?case
  proof (cases "n = 0 \<or> xs = []")
    case True
    then show ?thesis by (auto simp: read_blocks.simps[of n xs])
  next
    case False
    with 1 show ?thesis by (simp add: read_blocks.simps[of n xs])
  qed
qed

lemma forward_headers_apply:
  "forward_headers hs ks out k = (if k \<in> set ks \<and> truthy (hs k) then hs k else out k)"
  by (induction ks arbitrary: out) auto

lemma apply_operation_None: "apply_operation env s r opn img = None \<longleftrightarrow> \<not> has_transform opn"
  by (simp add: apply_operation_def has_transform_def)

lemma map_of_get_options:
  "map_of (get_options s opts) k =
     (case map_of opts k of None \<Rightarrow> None
      | Some v \<Rightarrow> Some (if v = PNone then settings_get s k else v))"
  by (induction opts) (auto simp: get_options_def)

lemma keys_get_options: "map fst (get_options s opts) = map fst opts"
  by (induction opts) (auto simp: get_options_def)

section \<open>Option resolution: claim C1\<close>

lemma get_options_Cons:
  "get_options s ((k, arg_value a) # opts)
     = (k, supplied_or a (settings_get s k)) # get_options s opts"
  by (cases a) (simp_all add: get_options_def arg_value_def supplied_or_def)

lemma get_options_Nil: "get_options s [] = []"
  by (simp add: get_options_def)

lemma resize_family:
  "get_resize_options s r =
     [(''mode'', supplied_or (get_argument r ''mode'') (arg_value (mode s))),
      (''filter'', supplied_or (get_argument r ''filter'') (arg_value (filter_setting s))),
      (''position'', supplied_or (get_argument r ''pos'') (arg_value (position s))),
      (''background'', supplied_or (get_argument r ''bg'') (arg_value (background s))),
      (''retain'', supplied_or (get_argument r ''retain'') PNone)]"
  by (simp add: get_resize_options_def get_options_Cons get_options_Nil settings_get_def)

lemma rotate_family:
  "get_rotate_options s r =
     [(''expand'', supplied_or (get_argument r ''expand'') (int_value (expand s)))]"
  by (simp add: get_rotate_options_def get_options_Cons get_options_Nil settings_get_def)

lemma watermark_family:
  "get_watermark_options s r =
     [(''watermark_txt'', supplied_or (get_argument r ''watermark_txt'') PNone),
      (''watermark_img'', supplied_or (get_argument r ''watermark_img'') PNone),
      (''watermark_pos'', supplied_or (get_argument r ''watermark_pos'') PNone),
      (''watermark_txt_size'', supplied_or (get_argument r ''watermark_txt_size'') PNone),
      (''watermark_txt_color'', supplied_or (get_argument r ''watermark_txt_color'') PNone),
      (''watermark_img_ratio'', supplied_or (get_argument r ''watermark_img_ratio'') PNone)]"
  by (simp add: get_watermark_options_def get_options_Cons get_options_Nil settings_get_def)

lemma save_family:
  "get_save_options s r =
     [(''format'', supplied_or (get_argument r ''fmt'') (arg_value (format s))),
      (''optimize'', supplied_or (get_argument r ''opt'') (int_value (optimize s))),
      (''quality'', supplied_or (get_argument r ''q'') (arg_value (quality s))),
      (''progressive'', supplied_or (get_argument r ''prog'') (int_value (progressive s))),
      (''background'', supplied_or (get_argument r ''bg'') (arg_value (background s))),
      (''preserve_exif'', supplied_or (get_argument r ''exif'') (int_value (preserve_exif s))),
      (''watermark_pos'', supplied_or (get_argument r ''watermark_pos'') PNone),
      (''watermark_txt_size'', supplied_or (get_argument r ''watermark_txt_size'') PNone),
      (''watermark_txt_color'', supplied_or (get_argument r ''watermark_txt_color'') PNone),
      (''watermark_img_ratio'', supplied_or (get_argument r ''watermark_img_ratio'') PNone)]"
  by (simp add: get_save_options_def get_options_Cons get_options_Nil settings_get_def)

text \<open>
  C1, as stated, fails on the code. The request supplies \<open>mode\<close> as the empty string and
  the settings hold the default \<open>crop\<close>: the resolved \<open>mode\<close> is the empty string, not the
  default. \<open>retain\<close> is neither supplied nor configured: it is not omitted, the resolved
  options hold it with the value \<open>None\<close>.
\<close>

theorem C1_counterexample:
  "map_of (get_resize_options (default_settings\<lparr>mode := Some ''crop''\<rparr>)
             (request_of [(''mode'', '''')])) ''mode'' = Some (PStr '''')
   \<and> settings_get (default_settings\<lparr>mode := Some ''crop''\<rparr>) ''mode'' = PStr ''crop''
   \<and> map_of (get_resize_options (default_settings\<lparr>mode := Some ''crop''\<rparr>)
             (request_of [(''mode'', '''')])) ''retain'' = Some PNone"
  by (simp add: get_resize_options_def get_options_def get_argument_def request_of_def
      arg_value_def settings_get_def default_settings_def)

text \<open>
  C1, amended: option resolution keeps every field of every operation family (resize,
  rotate, watermark, save), in order. A field whose request argument is present, even as
  the empty string, resolves to that argument; a field whose argument is absent resolves
  to the setting of the same key, and to \<open>None\<close> when there is no such setting. No field
  is ever omitted. The last four conjuncts give, for each family, every field with the
  request argument that feeds it (\<open>position\<close> from \<open>pos\<close>, \<open>background\<close> from \<open>bg\<close>,
  \<open>format\<close> from \<open>fmt\<close>, \<open>optimize\<close> from \<open>opt\<close>, \<open>quality\<close> from \<open>q\<close>, \<open>progressive\<close> from
  \<open>prog\<close>, \<open>preserve_exif\<close> from \<open>exif\<close>, the others from the argument of their own name)
  and the setting it falls back to.
\<close>

theorem C1_option_resolution:
  "map fst (get_options s opts) = map fst opts
   \<and> map_of (get_options s opts) k =
       (case map_of opts k of
          None \<Rightarrow> None
        | Some v \<Rightarrow> Some (if v = PNone then settings_get s k else v))
   \<and> map fst (get_resize_options s r) = [''mode'', ''filter'', ''position'', ''background'', ''retain'']
   \<and> map fst (get_rotate_options s r) = [''expand'']
   \<and> map fst (get_watermark_options s r) =
       [''watermark_txt'', ''watermark_img'', ''watermark_pos'', ''watermark_txt_size'',
        ''watermark_txt_color'', ''watermark_img_ratio'']
   \<and> map fst (get_save_options s r) =
       [''format'', ''optimize'', ''quality'', ''progressive'', ''background'', ''preserve_exif'',
        ''watermark_pos'', ''watermark_txt_size'', ''watermark_txt_color'', ''watermark_img_ratio'']
   \<and> get_resize_options s r =
       [(''mode'', supplied_or (get_argument r ''mode'') (arg_value (mode s))),
        (''filter'', supplied_or (get_argument r ''filter'') (arg_value (filter_setting s))),
        (''position'', supplied_or (get_argument r ''pos'') (arg_value (position s))),
        (''background'', supplied_or (get_argument r ''bg'') (arg_value (background s))),
        (''retain'', supplied_or (get_argument r ''retain'') PNone)]
   \<and> get_rotate_options s r =
       [(''expand'', supplied_or (get_argument r ''expand'') (int_value (expand s)))]
   \<and> get_watermark_options s r =
       [(''watermark_txt'', supplied_or (get_argument r ''watermark_txt'') PNone),
        (''watermark_img'', supplied_or (get_argument r ''watermark_img'') PNone),
        (''watermark_pos'', supplied_or (get_argument r ''watermark_pos'') PNone),
        (''watermark_txt_size'', supplied_or (get_argument r ''watermark_txt_size'') PNone),
        (''watermark_txt_color'', supplied_or (get_argument r ''watermark_txt_color'') PNone),
        (''watermark_img_ratio'', supplied_or (get_argument r ''watermark_img_ratio'') PNone)]
   \<and> get_save_options s r =
       [(''format'', supplied_or (get_argument r ''fmt'') (arg_value (format s))),
        (''optimize'', supplied_or (get_argument r ''opt'') (int_value (optimize s))),
        (''quality'', supplied_or (get_argument r ''q'') (arg_value (quality s))),
        (''progressive'', supplied_or (get_argument r ''prog'') (int_value (progressive s))),
        (''background'', supplied_or (get_argument r ''bg'') (arg_value (background s))),
        (''preserve_exif'', supplied_or (get_argument r ''exif'') (int_value (preserve_exif s))),
        (''watermark_pos'', supplied_or (get_argument r ''watermark_pos'') PNone),
        (''watermark_txt_size'', supplied_or (get_argument r ''watermark_txt_size'') PNone),
        (''watermark_txt_color'', supplied_or (get_argument r ''watermark_txt_color'') PNone),
        (''watermark_img_ratio'', supplied_or (get_argument r ''watermark_img_ratio'') PNone)]"
proof (intro conjI)
  show "map fst (get_options s opts) = map fst opts"
    by (rule keys_get_options)
  show "map_of (get_options s opts) k =
       (case map_of opts k of
          None \<Rightarrow> None
        | Some v \<Rightarrow> Some (if v = PNone then settings_get s k else v))"
    by (rule map_of_get_options)
  show "map fst (get_resize_options s r) = [''mode'', ''filter'', ''position'', ''background'', ''retain'']"
    by (simp add: get_resize_options_def keys_get_options)
  show "map fst (get_rotate_options s r) = [''expand'']"
    by (simp add: get_rotate_options_def keys_get_options)
  show "map fst (get_watermark_options s r) =
       [''watermark_txt'', ''watermark_img'', ''watermark_pos'', ''watermark_txt_size'',
        ''watermark_txt_color'', ''watermark_img_ratio'']"
    by (simp add: get_watermark_options_def keys_get_options)
  show "map fst (get_save_options s r) =
       [''format'', ''optimize'', ''quality'', ''progressive'', ''background'', ''preserve_exif'',
        ''watermark_pos'', ''watermark_txt_size'', ''watermark_txt_color'', ''watermark_img_ratio'']"
    by (simp add: get_save_options_def keys_get_options)
qed (rule resize_family rotate_family watermark_family save_family)+

theorem C1_option_resolution_witness:
  "get_save_options (default_settings\<lparr>format := Some ''png''\<rparr>) (request_of [(''q'', ''''), (''opt'', ''1'')])
     = [(''format'', PStr ''png''), (''optimize'', PStr ''1''), (''quality'', PStr ''''),
        (''progressive'', PNone), (''background'', PNone), (''preserve_exif'', PNone),
        (''watermark_pos'', PNone), (''watermark_txt_size'', PNone),
        (''watermark_txt_color'', PNone), (''watermark_img_ratio'', PNone)]"
  using C1_option_resolution [of "default_settings\<lparr>format := Some ''png''\<rparr>" "[]" "[]"
      "request_of [(''q'', ''''), (''opt'', ''1'')]"]
  by (simp add: supplied_or_def arg_value_def int_value_def get_argument_def request_of_def
      default_settings_def)

section \<open>The pass-through operation: claim C2\<close>

lemma set_headers_no_format:
  "set_headers s r hs None out =
     Inr (forward_headers hs FORWARD_HEADERS
            (if hs ''Content-Type'' \<noteq> None then out(''Content-Type'' := hs ''Content-Type'') else out))"
  by (simp add: set_headers_def truthy_def)

lemma process_response_noop:
  "''noop'' \<in> set (get_operations s r) \<Longrightarrow>
   process_response env s r resp = (Inr (buffer resp, None), [])"
  by (simp add: process_response_def)

lemma render_image_passthrough:
  "process_response env s r resp = (Inr (buffer resp, None), []) \<Longrightarrow>
   render_image env s r resp out =
      (Inr (forward_headers (headers resp) FORWARD_HEADERS
              (if headers resp ''Content-Type'' \<noteq> None
               then out(''Content-Type'' := headers resp ''Content-Type'') else out),
            buffer resp), [])"
  by (simp add: render_image_def set_headers_no_format concat_read_blocks)

lemma forward_content_type:
  "forward_headers hs FORWARD_HEADERS
     (if hs ''Content-Type'' \<noteq> None then out(''Content-Type'' := hs ''Content-Type'') else out)
     ''Content-Type''
   = (case hs ''Content-Type'' of Some c \<Rightarrow> Some c | None \<Rightarrow> out ''Content-Type'')"
  by (auto simp: forward_headers_apply FORWARD_HEADERS_def split: option.splits)

lemma ops_noop:
  "get_operations default_settings (request_of [(''op'', ''resize,noop'')]) = [''resize'', ''noop'']"
  by (simp add: get_operations_def get_argument_def request_of_def)

text \<open>
  C2: when the operation list contains \<open>noop\<close>, alone or with other operations,
  \<open>_process_response\<close> calls no collaborator (no decode, no transform, no encode), returns
  the fetched bytes and declares no format; \<open>render_image\<close> then writes exactly the fetched
  bytes, and the \<open>Content-Type\<close> of the response is the upstream one (when the upstream
  response has none, the handler's own is left as it was).
\<close>

theorem C2_noop_passthrough:
  assumes "''noop'' \<in> set (get_operations s r)"
  shows "process_response env s r resp = (Inr (buffer resp, None), [])
     \<and> (\<exists>out'. render_image env s r resp out = (Inr (out', buffer resp), [])
          \<and> out' ''Content-Type'' =
              (case headers resp ''Content-Type'' of Some c \<Rightarrow> Some c | None \<Rightarrow> out ''Content-Type''))"
proof (rule conjI)
  show p: "process_response env s r resp = (Inr (buffer resp, None), [])"
    using assms by (rule process_response_noop)
  show "\<exists>out'. render_image env s r resp out = (Inr (out', buffer resp), [])
          \<and> out' ''Content-Type'' =
              (case headers resp ''Content-Type'' of Some c \<Rightarrow> Some c | None \<Rightarrow> out ''Content-Type'')"
    using render_image_passthrough [OF p, of out] forward_content_type [of "headers resp" out]
    by (intro exI conjI) assumption+
qed

theorem C2_noop_passthrough_witness:
  "''noop'' \<in> set (get_operations default_settings (request_of [(''op'', ''resize,noop'')]))
   \<and> process_response test_env default_settings (request_of [(''op'', ''resize,noop'')]) test_response
       = (Inr (''JPEGDATA'', None), [])"
proof -
  have h: "''noop'' \<in> set (get_operations default_settings (request_of [(''op'', ''resize,noop'')]))"
    by (simp add: ops_noop)
  show ?thesis
    using h C2_noop_passthrough [OF h, of test_env test_response Map.empty]
    by (simp add: test_response_def)
qed

section \<open>The operation allow-list: claim C4\<close>

lemma ops_blur:
  "get_operations default_settings (request_of [(''op'', ''resize,blur'')]) = [''resize'', ''blur'']"
  by (simp add: get_operations_def get_argument_def request_of_def)

text \<open>
  C4: when the parsed operations are not a subset of the allowed operations, validation
  fails with \<open>OperationError\<close> and the handler makes no call at all, so no fetch.
\<close>

theorem C4_disallowed_operation:
  assumes "\<not> set (get_operations s r) \<subseteq> allowed_operations s"
  shows "validate_request env s r = Some (OperationError ''Unsupported operation'')
     \<and> get env s r out = (Inl (OperationError ''Unsupported operation''), [])"
  using assms by (simp add: get_def validate_request_def validate_operation_def and_then_def)

theorem C4_disallowed_operation_witness:
  "\<not> set (get_operations default_settings (request_of [(''op'', ''resize,blur'')]))
        \<subseteq> allowed_operations default_settings
   \<and> get test_env default_settings (request_of [(''op'', ''resize,blur'')]) Map.empty
       = (Inl (OperationError ''Unsupported operation''), [])"
proof -
  have h: "\<not> set (get_operations default_settings (request_of [(''op'', ''resize,blur'')]))
        \<subseteq> allowed_operations default_settings"
    by (simp only: ops_blur) (simp add: default_settings_def)
  show ?thesis using h C4_disallowed_operation [OF h, of test_env Map.empty] by simp
qed

section \<open>Watermark arguments: claims C5 and C10\<close>







section \<open>The operation count: claim C6\<close>

text \<open>
  C6 does not hold of the code: \<open>_validate_operation\<close> counts the set of operations, not
  the list. With \<open>max_operations = 2\<close> the request \<open>op=resize,resize,resize\<close> lists three
  operations, passes the operation check, and the pipeline applies all three.
\<close>

theorem C6_repeated_operations_accepted:
  "length (get_operations (default_settings\<lparr>max_operations := 2\<rparr>)
             (request_of [(''op'', ''resize,resize,resize''), (''url'', ''http://example.com/a.jpg''),
                          (''w'', ''10'')])) = 3
   \<and> validate_operation (default_settings\<lparr>max_operations := 2\<rparr>)
        (request_of [(''op'', ''resize,resize,resize''), (''url'', ''http://example.com/a.jpg''),
                     (''w'', ''10'')]) = None
   \<and> snd (get test_env (default_settings\<lparr>max_operations := 2\<rparr>)
        (request_of [(''op'', ''resize,resize,resize''), (''url'', ''http://example.com/a.jpg''),
                     (''w'', ''10'')]) Map.empty)
      = [Fetch ''http://example.com/a.jpg'', Decode, Transform ''resize'', Transform ''resize'',
         Transform ''resize'', Encode]"
  by (simp add: get_operations_def validate_operation_def default_settings_def get_def
      validate_request_def and_then_def validate_url_def validate_signature_def
      validate_client_def validate_host_def validate_arguments_def validate_resize_def
      fetch_image_def render_image_def process_response_def apply_operation_def
      set_headers_def test_env_def test_response_def truthy_def startswith_def
      get_argument_def request_of_def decimal_def Let_def concat_read_blocks)

section \<open>The order of the checks: claim C3\<close>

lemma first_error_iff:
  "first_error cs = Some e \<longleftrightarrow>
     (\<exists>i<length cs. cs ! i = Some e \<and> (\<forall>j<i. cs ! j = None))"
proof (induction cs)
  case Nil
  then show ?case by simp
next
  case (Cons c cs)
  show ?case
  proof (cases c)
    case None
    have "(\<exists>i<length (c # cs). (c # cs) ! i = Some e \<and> (\<forall>j<i. (c # cs) ! j = None))
        \<longleftrightarrow> (\<exists>i<length cs. cs ! i = Some e \<and> (\<forall>j<i. cs ! j = None))"
    proof
      assume "\<exists>i<length (c # cs). (c # cs) ! i = Some e \<and> (\<forall>j<i. (c # cs) ! j = None)"
      then obtain i where i: "i < length (c # cs)" "(c # cs) ! i = Some e"
        "\<forall>j<i. (c # cs) ! j = None" by blast
      from i(2) None obtain k where k: "i = Suc k" by (cases i) auto
      have "\<forall>j<k. cs ! j = None"
      proof (intro allI impI)
        fix j assume "j < k"
        then have "Suc j < i" using k by simp
        then have "(c # cs) ! Suc j = None" using i(3) by blast
        then show "cs ! j = None" by simp
      qed
      with i k show "\<exists>i<length cs. cs ! i = Some e \<and> (\<forall>j<i. cs ! j = None)"
        by auto
    next
      assume "\<exists>i<length cs. cs ! i = Some e \<and> (\<forall>j<i. cs ! j = None)"
      then obtain i where i: "i < length cs" "cs ! i = Some e" "\<forall>j<i. cs ! j = None" by blast
      have "\<forall>j<Suc i. (c # cs) ! j = None"
      proof (intro allI impI)
        fix j assume "j < Suc i"
        then show "(c # cs) ! j = None" using None i(3) by (cases j) auto
      qed
      with i show "\<exists>i<length (c # cs). (c # cs) ! i = Some e \<and> (\<forall>j<i. (c # cs) ! j = None)"
        by (intro exI[of _ "Suc i"]) simp
    qed
    with Cons None show ?thesis by simp
  next
    case (Some e')
    have "(\<exists>i<length (c # cs). (c # cs) ! i = Some e \<and> (\<forall>j<i. (c # cs) ! j = None))
        \<longleftrightarrow> e' = e"
    proof
      assume "\<exists>i<length (c # cs). (c # cs) ! i = Some e \<and> (\<forall>j<i. (c # cs) ! j = None)"
      then obtain i where i: "(c # cs) ! i = Some e" "\<forall>j<i. (c # cs) ! j = None" by blast
      have "i = 0"
      proof (rule ccontr)
        assume "i \<noteq> 0"
        then have "(c # cs) ! 0 = None" using i(2) by blast
        with Some show False by simp
      qed
      with i(1) Some show "e' = e" by simp
    next
      assume "e' = e"
      with Some show "\<exists>i<length (c # cs). (c # cs) ! i = Some e \<and> (\<forall>j<i. (c # cs) ! j = None)"
        by (intro exI[of _ 0]) simp
    qed
    with Some show ?thesis by simp
  qed
qed

lemma validate_request_first_error:
  "validate_request env s r = first_error (checks env s r)"
  by (simp add: validate_request_def checks_def and_then_def split: option.splits)

lemma get_invalid: "validate_request env s r = Some e \<Longrightarrow> get env s r out = (Inl e, [])"
  by (simp add: get_def)

lemma validate_url_Some:
  "validate_url s r = None \<Longrightarrow> \<exists>u. get_argument r ''url'' = Some u"
  by (auto simp: validate_url_def Let_def split: option.splits)

lemma fetch_image_trace:
  "get_argument r ''url'' = Some u \<Longrightarrow> \<exists>v. snd (fetch_image env s r) = [Fetch v]"
  by (auto simp: fetch_image_def Let_def split: fetch_result.splits)

lemma get_valid:
  assumes "validate_request env s r = None"
  shows "\<exists>u tr. snd (get env s r out) = Fetch u # tr"
proof -
  have "validate_url s r = None"
    using assms by (auto simp: validate_request_def and_then_def split: option.splits)
  then obtain u where "get_argument r ''url'' = Some u" using validate_url_Some by blast
  then obtain v where v: "snd (fetch_image env s r) = [Fetch v]" using fetch_image_trace by blast
  obtain res tr where f: "fetch_image env s r = (res, tr)" by (cases "fetch_image env s r")
  with v have tr: "tr = [Fetch v]" by simp
  show ?thesis
  proof (cases res)
    case (Inl e)
    with f tr assms show ?thesis by (simp add: get_def)
  next
    case (Inr resp)
    with f tr assms show ?thesis
      by (cases "render_image env s r resp out") (simp add: get_def)
  qed
qed

text \<open>
  C3: \<open>validate_request\<close> runs its checks in the order operation allow-list and count,
  URL shape, signature, client identity, host allow-list, arguments of the operations.
  It fails with \<open>e\<close> exactly when some check raises \<open>e\<close> and every earlier check passes,
  so a request that violates several checks fails with the error of the earliest one.
  A request that fails validation makes the handler call no collaborator, so no fetch is
  attempted; for a request that passes, the fetch is the first call.
\<close>

theorem C3_validation_order:
  "(validate_request env s r = Some e \<longleftrightarrow>
      (\<exists>i<length (checks env s r). checks env s r ! i = Some e \<and>
         (\<forall>j<i. checks env s r ! j = None)))
   \<and> (validate_request env s r = Some e \<longrightarrow> get env s r out = (Inl e, []))
   \<and> (validate_request env s r = None \<longrightarrow> (\<exists>u tr. snd (get env s r out) = Fetch u # tr))"
  using first_error_iff [of "checks env s r" e] get_invalid [of env s r e out]
    get_valid [of env s r out]
  by (simp only: validate_request_first_error) blast

theorem C3_validation_order_witness:
  "validate_url (default_settings\<lparr>client_name := Some ''me''\<rparr>) (request_of [(''op'', ''rotate'')])
     = Some (UrlError ''Missing url'')
   \<and> validate_client (default_settings\<lparr>client_name := Some ''me''\<rparr>) (request_of [(''op'', ''rotate'')])
     = Some (ClientError ''Invalid client'')
   \<and> validate_request test_env (default_settings\<lparr>client_name := Some ''me''\<rparr>)
        (request_of [(''op'', ''rotate'')]) = Some (UrlError ''Missing url'')
   \<and> get test_env (default_settings\<lparr>client_name := Some ''me''\<rparr>)
        (request_of [(''op'', ''rotate'')]) Map.empty = (Inl (UrlError ''Missing url''), [])"
proof -
  have h: "validate_request test_env (default_settings\<lparr>client_name := Some ''me''\<rparr>)
        (request_of [(''op'', ''rotate'')]) = Some (UrlError ''Missing url'')"
    by (simp add: validate_request_def and_then_def validate_operation_def validate_url_def
        get_operations_def get_argument_def request_of_def default_settings_def Let_def)
  have u: "validate_url (default_settings\<lparr>client_name := Some ''me''\<rparr>) (request_of [(''op'', ''rotate'')])
     = Some (UrlError ''Missing url'')"
    by (simp add: validate_url_def get_argument_def request_of_def Let_def)
  have c: "validate_client (default_settings\<lparr>client_name := Some ''me''\<rparr>) (request_of [(''op'', ''rotate'')])
     = Some (ClientError ''Invalid client'')"
    by (simp add: validate_client_def get_argument_def request_of_def default_settings_def
        truthy_def Let_def)
  show ?thesis
    using h u c
      C3_validation_order [of test_env "default_settings\<lparr>client_name := Some ''me''\<rparr>"
        "request_of [(''op'', ''rotate'')]" "UrlError ''Missing url''" Map.empty]
    by simp
qed

section \<open>The order of the transforms: claim C7\<close>

lemma apply_operations_trace:
  "apply_operations env s r ops img = (res, tr) \<Longrightarrow>
     (\<exists>n. tr = take n (map Transform (filter has_transform ops))) \<and>
     (\<forall>img'. res = Inr img' \<longrightarrow> tr = map Transform (filter has_transform ops))"
proof (induction ops arbitrary: img res tr)
  case Nil
  then show ?case by auto
next
  case (Cons opn ops)
  show ?case
  proof (cases "apply_operation env s r opn img")
    case None
    then have nt: "\<not> has_transform opn" by (simp add: apply_operation_None)
    from Cons.prems None have "apply_operations env s r ops img = (res, tr)" by simp
    from Cons.IH [OF this] nt show ?thesis by simp
  next
    case (Some a)
    then have ht: "has_transform opn" using apply_operation_None [of env s r opn img] by auto
    show ?thesis
    proof (cases a)
      case (Inl e)
      with Some Cons.prems have "res = Inl e" "tr = [Transform opn]" by auto
      then have "tr = take 1 (map Transform (filter has_transform (opn # ops)))"
        using ht by simp
      with \<open>res = Inl e\<close> show ?thesis by blast
    next
      case (Inr img1)
      obtain res1 tr1 where r1: "apply_operations env s r ops img1 = (res1, tr1)"
        by (cases "apply_operations env s r ops img1")
      with Some Inr Cons.prems have eq: "res = res1" "tr = Transform opn # tr1" by auto
      from Cons.IH [OF r1] obtain n where
        n: "tr1 = take n (map Transform (filter has_transform ops))"
        and full: "\<forall>img'. res1 = Inr img' \<longrightarrow> tr1 = map Transform (filter has_transform ops)"
        by blast
      have "tr = take (Suc n) (map Transform (filter has_transform (opn # ops)))"
        using eq n ht by simp
      moreover have "\<forall>img'. res = Inr img' \<longrightarrow> tr = map Transform (filter has_transform (opn # ops))"
        using eq full ht by simp
      ultimately show ?thesis by blast
    qed
  qed
qed

lemma process_response_trace:
  assumes "''noop'' \<notin> set (get_operations s r)"
    and "process_response env s r resp = (res, tr)"
  shows "(\<exists>n>0. tr = take n (full_trace (get_operations s r))) \<and>
         (\<forall>out. res = Inr out \<longrightarrow> tr = full_trace (get_operations s r))"
proof (cases "image_open env (buffer resp)")
  case (Inl e)
  with assms have "res = Inl e" "tr = [Decode]" by (auto simp: process_response_def)
  then have "tr = take 1 (full_trace (get_operations s r))" by (simp add: full_trace_def)
  with \<open>res = Inl e\<close> show ?thesis by (metis zero_less_one sum.distinct(1))
next
  case (Inr img)
  obtain res1 tr1 where a: "apply_operations env s r (get_operations s r) img = (res1, tr1)"
    by (cases "apply_operations env s r (get_operations s r) img")
  from apply_operations_trace [OF a] obtain n where
    n: "tr1 = take n (map Transform (filter has_transform (get_operations s r)))"
    and full: "\<forall>img'. res1 = Inr img' \<longrightarrow> tr1 = map Transform (filter has_transform (get_operations s r))"
    by blast
  show ?thesis
  proof (cases res1)
    case (Inl e)
    with assms Inr a have "res = Inl e" "tr = Decode # tr1" by (auto simp: process_response_def)
    define m where "m = min n (length (filter has_transform (get_operations s r)))"
    have "tr1 = take m (map Transform (filter has_transform (get_operations s r)))"
      using n by (simp add: m_def min_def)
    moreover have "m \<le> length (filter has_transform (get_operations s r))"
      by (simp add: m_def)
    ultimately have "tr = take (Suc m) (full_trace (get_operations s r))"
      using \<open>tr = Decode # tr1\<close> by (simp add: full_trace_def)
    with \<open>res = Inl e\<close> show ?thesis by (metis zero_less_Suc sum.distinct(1))
  next
    case (Inr img1)
    with full have t1: "tr1 = map Transform (filter has_transform (get_operations s r))" by simp
    have "tr = Decode # tr1 @ [Encode]"
      using assms \<open>image_open env (buffer resp) = Inr img\<close> a Inr
      by (auto simp: process_response_def split: sum.splits)
    then have f: "tr = full_trace (get_operations s r)" using t1 by (simp add: full_trace_def)
    then have "tr = take (length (full_trace (get_operations s r))) (full_trace (get_operations s r))"
      by simp
    moreover have "0 < length (full_trace (get_operations s r))" by (simp add: full_trace_def)
    ultimately show ?thesis using f by blast
  qed
qed

lemma count_decode_take:
  "0 < n \<Longrightarrow> length (filter (\<lambda>e. e = Decode) (take n (full_trace ops))) = 1"
  by (cases n) (auto simp: full_trace_def filter_empty_conv dest: in_set_takeD)

lemma count_encode_full: "length (filter (\<lambda>e. e = Encode) (full_trace ops)) = 1"
  by (auto simp: full_trace_def filter_empty_conv)

lemma apply_operations_succeed:
  assumes rs: "\<And>img. image_resize env (get_argument r ''w'') (get_argument r ''h'')
                   (get_resize_options s r) img = Inr (rs img)"
    and rt: "\<And>img. image_rotate env (get_argument r ''deg'') (get_rotate_options s r) img = Inr (rt img)"
    and wm: "\<And>img. image_watermark env (get_argument r ''watermark_pos'')
                   (get_watermark_options s r) img = Inr (wm img)"
    and rg: "''region'' \<in> set ops \<Longrightarrow>
               \<exists>rect. get_argument r ''rect'' = Some rect \<and>
                 (\<forall>img. image_region env (split_on CHR '','' rect) img = Inr (rg img))"
  shows "apply_operations env s r ops img
           = (Inr (foldl (transform_image rs rt rg wm) img ops),
              map Transform (filter has_transform ops))"
  using rg
proof (induction ops arbitrary: img)
  case Nil
  then show ?case by simp
next
  case (Cons opn ops)
  have rg': "''region'' \<in> set ops \<Longrightarrow>
               \<exists>rect. get_argument r ''rect'' = Some rect \<and>
                 (\<forall>img. image_region env (split_on CHR '','' rect) img = Inr (rg img))"
    using Cons.prems by simp
  note IH = Cons.IH [OF rg']
  consider (resize) "opn = ''resize''" | (rotate) "opn = ''rotate''" | (region) "opn = ''region''"
    | (watermark) "opn = ''watermark''" | (other) "\<not> has_transform opn"
    by (auto simp: has_transform_def)
  then show ?case
  proof cases
    case resize
    then show ?thesis
      by (simp add: apply_operation_def rs IH transform_image_def has_transform_def)
  next
    case rotate
    then show ?thesis
      by (simp add: apply_operation_def rt IH transform_image_def has_transform_def)
  next
    case region
    then obtain rect where "get_argument r ''rect'' = Some rect"
      "\<forall>img. image_region env (split_on CHR '','' rect) img = Inr (rg img)"
      using Cons.prems by auto
    with region show ?thesis
      by (simp add: apply_operation_def IH transform_image_def has_transform_def)
  next
    case watermark
    then show ?thesis
      by (simp add: apply_operation_def wm IH transform_image_def has_transform_def)
  next
    case other
    then have "apply_operation env s r opn img = None" by (simp add: apply_operation_None)
    moreover have "transform_image rs rt rg wm img opn = img"
      using other by (simp add: transform_image_def has_transform_def)
    ultimately show ?thesis using other by (simp add: IH)
  qed
qed

lemma process_response_succeed:
  assumes "''noop'' \<notin> set (get_operations s r)"
    and "image_open env (buffer resp) = Inr img0"
    and "\<forall>img. image_resize env (get_argument r ''w'') (get_argument r ''h'')
                   (get_resize_options s r) img = Inr (rs img)"
    and "\<forall>img. image_rotate env (get_argument r ''deg'') (get_rotate_options s r) img = Inr (rt img)"
    and "''region'' \<in> set (get_operations s r) \<longrightarrow>
           (\<exists>rect. get_argument r ''rect'' = Some rect \<and>
              (\<forall>img. image_region env (split_on CHR '','' rect) img = Inr (rg img)))"
    and "\<forall>img. image_watermark env (get_argument r ''watermark_pos'')
                   (get_watermark_options s r) img = Inr (wm img)"
    and "image_save env (get_save_options s r)
           (foldl (transform_image rs rt rg wm) img0 (get_operations s r)) = Inr (out, img1)"
  shows "process_response env s r resp
           = (Inr (out, image_format env img1), full_trace (get_operations s r))"
proof -
  have "apply_operations env s r (get_operations s r) img0
           = (Inr (foldl (transform_image rs rt rg wm) img0 (get_operations s r)),
              map Transform (filter has_transform (get_operations s r)))"
    using assms(3-6) by (intro apply_operations_succeed) auto
  then show ?thesis
    using assms(1,2,7) by (simp add: process_response_def full_trace_def)
qed

text \<open>
  C7: when the operation list does not contain \<open>noop\<close>, the calls of \<open>_process_response\<close>
  are an initial part of: one decode, then the transform of each listed operation that
  has one, in the order of the list and once per occurrence, then one encode. The decode
  is always made, exactly once. When \<open>_process_response\<close> returns (no collaborator
  raised), the calls are that whole sequence, with exactly one encode at the end.
  When the collaborators succeed, the result is what the encode makes of the image
  handle obtained by decoding the fetched bytes once and applying to it, one after the
  other on the same handle and in the order of the list, the transform of every listed
  operation: resize with \<open>w\<close>, \<open>h\<close> and the resize options, rotate with \<open>deg\<close> and the
  rotate options, region with the split \<open>rect\<close>, watermark with \<open>watermark_pos\<close> and the
  watermark options; the declared format is the one of the image after the encode. The
  witness runs the list \<open>resize,rotate\<close>: resize is applied before rotate, on the image
  that the decode returned.
\<close>

theorem C7_pipeline_order:
  assumes "''noop'' \<notin> set (get_operations s r)"
  shows "(\<exists>n>0. snd (process_response env s r resp) = take n (full_trace (get_operations s r)))
     \<and> length (filter (\<lambda>e. e = Decode) (snd (process_response env s r resp))) = 1
     \<and> (\<forall>out. fst (process_response env s r resp) = Inr out \<longrightarrow>
           snd (process_response env s r resp) = full_trace (get_operations s r)
           \<and> length (filter (\<lambda>e. e = Encode) (snd (process_response env s r resp))) = 1)
     \<and> (image_open env (buffer resp) = Inr img0 \<and>
         (\<forall>img. image_resize env (get_argument r ''w'') (get_argument r ''h'')
                   (get_resize_options s r) img = Inr (rs img)) \<and>
         (\<forall>img. image_rotate env (get_argument r ''deg'') (get_rotate_options s r) img
                   = Inr (rt img)) \<and>
         (''region'' \<in> set (get_operations s r) \<longrightarrow>
            (\<exists>rect. get_argument r ''rect'' = Some rect \<and>
               (\<forall>img. image_region env (split_on CHR '','' rect) img = Inr (rg img)))) \<and>
         (\<forall>img. image_watermark env (get_argument r ''watermark_pos'')
                   (get_watermark_options s r) img = Inr (wm img)) \<and>
         image_save env (get_save_options s r)
           (foldl (transform_image rs rt rg wm) img0 (get_operations s r)) = Inr (outfile, img1)
         \<longrightarrow> process_response env s r resp
               = (Inr (outfile, image_format env img1), full_trace (get_operations s r)))"
proof -
  obtain res tr where p: "process_response env s r resp = (res, tr)"
    by (cases "process_response env s r resp")
  from process_response_trace [OF assms p] obtain n where
    n: "0 < n" "tr = take n (full_trace (get_operations s r))"
    and full: "\<forall>out. res = Inr out \<longrightarrow> tr = full_trace (get_operations s r)"
    by blast
  have "length (filter (\<lambda>e. e = Decode) tr) = 1" using n count_decode_take by simp
  moreover have "\<forall>out. res = Inr out \<longrightarrow> length (filter (\<lambda>e. e = Encode) tr) = 1"
    using full count_encode_full by simp
  ultimately have first: "(\<exists>n>0. snd (process_response env s r resp) = take n (full_trace (get_operations s r)))
     \<and> length (filter (\<lambda>e. e = Decode) (snd (process_response env s r resp))) = 1
     \<and> (\<forall>out. fst (process_response env s r resp) = Inr out \<longrightarrow>
           snd (process_response env s r resp) = full_trace (get_operations s r)
           \<and> length (filter (\<lambda>e. e = Encode) (snd (process_response env s r resp))) = 1)"
    using p n full by auto
  have second: "image_open env (buffer resp) = Inr img0 \<and>
         (\<forall>img. image_resize env (get_argument r ''w'') (get_argument r ''h'')
                   (get_resize_options s r) img = Inr (rs img)) \<and>
         (\<forall>img. image_rotate env (get_argument r ''deg'') (get_rotate_options s r) img
                   = Inr (rt img)) \<and>
         (''region'' \<in> set (get_operations s r) \<longrightarrow>
            (\<exists>rect. get_argument r ''rect'' = Some rect \<and>
               (\<forall>img. image_region env (split_on CHR '','' rect) img = Inr (rg img)))) \<and>
         (\<forall>img. image_watermark env (get_argument r ''watermark_pos'')
                   (get_watermark_options s r) img = Inr (wm img)) \<and>
         image_save env (get_save_options s r)
           (foldl (transform_image rs rt rg wm) img0 (get_operations s r)) = Inr (outfile, img1)
         \<longrightarrow> process_response env s r resp
               = (Inr (outfile, image_format env img1), full_trace (get_operations s r))"
    using process_response_succeed [OF assms, of env resp img0 rs rt rg wm outfile img1]
    by blast
  from first second show ?thesis by (intro conjI) (elim conjE, assumption)+
qed

theorem C7_pipeline_order_witness:
  "''noop'' \<notin> set (get_operations default_settings (request_of [(''op'', ''resize,rotate'')]))
   \<and> image_open test_env (buffer test_response) = Inr [''open'']
   \<and> image_save test_env (get_save_options default_settings (request_of [(''op'', ''resize,rotate'')]))
        (foldl (transform_image (\<lambda>img. img @ [''resize'']) (\<lambda>img. img @ [''rotate''])
                  (\<lambda>img. img @ [''region'']) (\<lambda>img. img @ [''watermark'']))
           [''open''] (get_operations default_settings (request_of [(''op'', ''resize,rotate'')])))
       = Inr (''openresizerotate'', [''open'', ''resize'', ''rotate''])
   \<and> process_response test_env default_settings (request_of [(''op'', ''resize,rotate'')])
        test_response
       = (Inr (''openresizerotate'', Some ''JPEG''),
          [Decode, Transform ''resize'', Transform ''rotate'', Encode])"
proof -
  have h: "''noop'' \<notin> set (get_operations default_settings (request_of [(''op'', ''resize,rotate'')]))"
    by (simp add: get_operations_def get_argument_def request_of_def)
  show ?thesis
    using h C7_pipeline_order [OF h, of test_env test_response "[''open'']"
        "\<lambda>img. img @ [''resize'']" "\<lambda>img. img @ [''rotate'']" "\<lambda>img. img @ [''region'']"
        "\<lambda>img. img @ [''watermark'']" "''openresizerotate''" "[''open'', ''resize'', ''rotate'']"]
    by (simp add: process_response_def apply_operation_def get_operations_def get_argument_def
        request_of_def test_env_def test_response_def full_trace_def has_transform_def
        transform_image_def)
qed

section \<open>Response headers: claim C8\<close>

lemma lower_PNG: "lower ''PNG'' = ''png''"
  by code_simp

lemma lower_BMP: "lower ''BMP'' = ''bmp''"
  by code_simp

text \<open>
  C8, as stated, fails on the code. The request asks for the output format \<open>png\<close>, and the
  pipeline declares no format (the pass-through case): the \<open>Content-Type\<close> is the upstream
  \<open>text/plain\<close>, not the table's entry. With a declared format that the table lacks
  (\<open>BMP\<close>), no content type is derived either: \<open>_set_headers\<close> raises.
\<close>

theorem C8_counterexample:
  "truthy (get_argument (request_of [(''fmt'', ''png'')]) ''fmt'')
   \<and> FORMAT_TO_MIME ''png'' = Some ''image/png''
   \<and> content_type_of
        (set_headers default_settings (request_of [(''fmt'', ''png'')])
           (map_of [(''Content-Type'', ''text/plain'')]) None Map.empty) = Some ''text/plain''
   \<and> set_headers default_settings (request_of [(''fmt'', ''bmp'')])
           (map_of [(''Content-Type'', ''text/plain'')]) (Some ''BMP'') Map.empty
       = Inl (ExternalError ''TypeError'')"
  by (simp add: set_headers_def content_type_of_def truthy_def get_argument_def request_of_def
      FORMAT_TO_MIME_def FORWARD_HEADERS_def lower_BMP default_settings_def)

lemma forward_headers_whitelist:
  "k \<in> set FORWARD_HEADERS \<Longrightarrow>
   forward_headers hs FORWARD_HEADERS out k = (if truthy (hs k) then hs k else out k)"
  by (simp add: forward_headers_apply)

lemma forward_headers_content_type:
  "forward_headers hs FORWARD_HEADERS out ''Content-Type'' = out ''Content-Type''"
  by (simp add: forward_headers_apply FORWARD_HEADERS_def)

lemma set_headers_derived:
  assumes "truthy ff"
    and "truthy (get_argument r ''fmt'') \<or> truthy (format s) \<or> content_type_from_image s = Some True"
    and "ff = Some f" and "FORMAT_TO_MIME (lower f) = Some m"
  shows "set_headers s r hs ff out
           = Inr (forward_headers hs FORWARD_HEADERS (out(''Content-Type'' \<mapsto> m)))"
  using assms by (simp add: set_headers_def)

lemma set_headers_forwarded:
  assumes "\<not> (truthy ff \<and>
      (truthy (get_argument r ''fmt'') \<or> truthy (format s) \<or> content_type_from_image s = Some True))"
  shows "set_headers s r hs ff out
           = Inr (forward_headers hs FORWARD_HEADERS
                (if hs ''Content-Type'' \<noteq> None then out(''Content-Type'' := hs ''Content-Type'') else out))"
  using assms by (auto simp: set_headers_def)

lemma set_headers_whitelist:
  assumes "set_headers s r hs ff out = Inr out'" and "k \<in> set FORWARD_HEADERS"
  shows "out' k = (if truthy (hs k) then hs k else out k)"
proof -
  have ne: "k \<noteq> ''Content-Type''" using assms(2) by (auto simp: FORWARD_HEADERS_def)
  from assms(1) obtain base where b: "out' = forward_headers hs FORWARD_HEADERS base"
    and bk: "base k = out k"
    using ne by (auto simp: set_headers_def split: if_splits option.splits)
  show ?thesis using b bk assms(2) by (simp add: forward_headers_whitelist)
qed

text \<open>
  C8, amended: when the pipeline declares a non-empty output format and an output format
  was requested (\<open>fmt\<close> non-empty), or a default format is configured, or the
  content-type-from-image flag is set, and the format-to-MIME table has an entry for the
  lower-cased declared format, the \<open>Content-Type\<close> is that entry. When the pipeline
  declares no format, or none of the three is set, the upstream \<open>Content-Type\<close> is
  forwarded unchanged if there is one. Whenever \<open>_set_headers\<close> returns, each of
  \<open>Cache-Control\<close>, \<open>Expires\<close> and \<open>Last-Modified\<close> is set from upstream exactly when it is
  present there and not empty.
\<close>

theorem C8_content_type:
  "(truthy ff \<and>
      (truthy (get_argument r ''fmt'') \<or> truthy (format s) \<or> content_type_from_image s = Some True) \<and>
      ff = Some f \<and> FORMAT_TO_MIME (lower f) = Some m \<longrightarrow>
      (\<exists>out'. set_headers s r hs ff out = Inr out' \<and> out' ''Content-Type'' = Some m))
   \<and> (\<not> (truthy ff \<and>
      (truthy (get_argument r ''fmt'') \<or> truthy (format s) \<or> content_type_from_image s = Some True)) \<longrightarrow>
      (\<exists>out'. set_headers s r hs ff out = Inr out' \<and>
          out' ''Content-Type'' =
            (case hs ''Content-Type'' of Some c \<Rightarrow> Some c | None \<Rightarrow> out ''Content-Type'')))
   \<and> (\<forall>out'. set_headers s r hs ff out = Inr out' \<longrightarrow>
         (\<forall>k\<in>set FORWARD_HEADERS. out' k = (if truthy (hs k) then hs k else out k)))"
proof (intro conjI impI allI ballI)
  assume a: "truthy ff \<and>
      (truthy (get_argument r ''fmt'') \<or> truthy (format s) \<or> content_type_from_image s = Some True) \<and>
      ff = Some f \<and> FORMAT_TO_MIME (lower f) = Some m"
  then have "set_headers s r hs ff out
           = Inr (forward_headers hs FORWARD_HEADERS (out(''Content-Type'' \<mapsto> m)))"
    using set_headers_derived [of ff r s f m hs out] by blast
  moreover have "forward_headers hs FORWARD_HEADERS (out(''Content-Type'' \<mapsto> m)) ''Content-Type'' = Some m"
    by (simp add: forward_headers_content_type)
  ultimately show "\<exists>out'. set_headers s r hs ff out = Inr out' \<and> out' ''Content-Type'' = Some m"
    by blast
next
  assume a: "\<not> (truthy ff \<and>
      (truthy (get_argument r ''fmt'') \<or> truthy (format s) \<or> content_type_from_image s = Some True))"
  show "\<exists>out'. set_headers s r hs ff out = Inr out' \<and>
          out' ''Content-Type'' =
            (case hs ''Content-Type'' of Some c \<Rightarrow> Some c | None \<Rightarrow> out ''Content-Type'')"
    using set_headers_forwarded [OF a, of hs out] forward_content_type [of hs out]
    by (intro exI conjI) assumption+
next
  fix out' k
  assume "set_headers s r hs ff out = Inr out'" and "k \<in> set FORWARD_HEADERS"
  then show "out' k = (if truthy (hs k) then hs k else out k)"
    by (rule set_headers_whitelist)
qed

theorem C8_content_type_witness:
  "(\<exists>out'. set_headers (default_settings\<lparr>content_type_from_image := Some True\<rparr>) (request_of [])
       (map_of [(''Content-Type'', ''application/octet-stream''), (''Expires'', ''0'')])
       (Some ''PNG'') Map.empty = Inr out' \<and> out' ''Content-Type'' = Some ''image/png'')"
  using C8_content_type [of "Some ''PNG''" "request_of []"
      "default_settings\<lparr>content_type_from_image := Some True\<rparr>" "''PNG''" "''image/png''"
      "map_of [(''Content-Type'', ''application/octet-stream''), (''Expires'', ''0'')]" Map.empty]
  by (simp add: truthy_def FORMAT_TO_MIME_def lower_PNG)

section \<open>Shutdown: claim C9\<close>









end
